theory Spec2Isabelle
  imports Complex_Main "HOL-Library.Sublist"
begin

unbundle bit_operations_syntax

section \<open>Numbers, typed arrays and errors\<close>

text \<open>
  The simulator (class \<open>ErosionSimulator\<close>) computes with JavaScript numbers and stores
  its grids in \<open>Float32Array\<close>s. The embedding idealises both to the reals: a grid is a
  \<open>real list\<close> in row-major order, cell \<open>(x, y)\<close> is at index \<open>y * width + x\<close>.
  Rounding and overflow are outside the model; the concrete inputs used below are
  chosen so that rounding does not change what happens.

  The reals have no \<open>Infinity\<close> and no \<open>NaN\<close>. A division by zero does not throw in the
  source: it yields one of the two, and the computation goes on with it. The step
  algorithm has two divisions whose divisor the parameters can make zero (the
  viscosity and the talus factor). There the model stops with the outcome \<open>NonFinite\<close>,
  which carries the state at that point and is not an exception of the source: what
  the source does with the non-finite number is not described. The theorems about
  whole calls assume parameters that keep these divisors away from zero, and prove
  that no call stops. Every other division, root and power of the step algorithm is
  finite on a grid with cells (\<open>width * height > 0\<close>).

  A write to a typed array at an index out of range is ignored, which is what
  \<open>xs[i := v]\<close> does. A read out of range yields \<open>undefined\<close>; all reads of the
  simulator are guarded so that they are in range when a grid has \<open>width * height\<close>
  cells, and the theorems that depend on a stored value assume that length.

  A property access on \<open>undefined\<close> (a map that was never allocated) throws a
  \<open>TypeError\<close>, an array constructor with a negative length throws a \<open>RangeError\<close>.
  A throwing call leaves the mutations made so far in place, so a thrown outcome
  carries the state at the throw.
\<close>

datatype error = TypeError | RangeError | NonFinite

type_synonym 'a outcome = "(error \<times> 'a) + 'a"

definition newFloat32Array :: "int \<Rightarrow> error + real list" where
  "newFloat32Array n = (if n < 0 then Inl RangeError else Inr (replicate (nat n) 0))"

definition bindE :: "error + 'a \<Rightarrow> ('a \<Rightarrow> error + 'b) \<Rightarrow> error + 'b" where
  "bindE m f = (case m of Inl err \<Rightarrow> Inl err | Inr v \<Rightarrow> f v)"

section \<open>The noise field\<close>

definition permutation :: "int list" where
  "permutation =
    [151,160,137,91,90,15,131,13,201,95,96,53,194,233,7,225,140,36,103,30,69,142,8,99,37,240,21,10,23,
     190,6,148,247,120,234,75,0,26,197,62,94,252,219,203,117,35,11,32,57,177,33,88,237,149,56,87,174,20,125,136,171,168,
     68,175,74,165,71,134,139,48,27,166,77,146,158,231,83,111,229,122,60,211,133,230,220,105,92,41,55,46,245,40,244,
     102,143,54,65,25,63,161,1,216,80,73,209,76,132,187,208,89,18,169,200,196,135,130,116,188,159,86,164,100,109,198,173,186,
     3,64,52,217,226,250,124,123,5,202,38,147,118,126,255,82,85,212,207,206,59,227,47,16,58,17,182,189,28,42,
     223,183,170,213,119,248,152,2,44,154,163,70,221,153,101,155,167,43,172,9,129,22,39,253,19,98,108,110,79,113,224,232,178,185,
     112,104,218,246,97,228,251,34,242,193,238,210,144,12,191,179,162,241,81,51,145,235,249,14,239,107,
     49,192,214,31,181,199,106,157,184,84,204,176,115,121,50,45,127,4,150,254,138,236,205,93,222,114,67,29,24,72,243,141,128,195,78,66,215,61,156,180]"

text \<open>
  The constructor fills \<open>this._p\<close>, 512 entries, with two copies of the table:
  \<open>_p[i] = _p[i + 256] = permutation[i]\<close> for \<open>i < 256\<close>.
\<close>

definition p_table :: "int \<Rightarrow> int" where
  "p_table i = (permutation @ permutation) ! nat i"

definition fade :: "real \<Rightarrow> real" where
  "fade t = t * t * t * (t * (t * 6 - 15) + 10)"

definition lerp :: "real \<Rightarrow> real \<Rightarrow> real \<Rightarrow> real" where
  "lerp t a b = a + t * (b - a)"

definition grad :: "int \<Rightarrow> real \<Rightarrow> real \<Rightarrow> real" where
  "grad hash x y =
    (let h = hash AND 15;
         gradX = 1 + (h AND 7);
         gradY = 1 + drop_bit 4 h
     in (if h AND 8 \<noteq> 0 then - of_int gradX else of_int gradX) * x
        + (if h AND 8 \<noteq> 0 then - of_int gradY else of_int gradY) * y)"

text \<open>
  \<open>Math.floor(x) & 255\<close> keeps the low eight bits of the floor, also for a negative one
  (the operand is first reduced to a 32-bit integer, which keeps the low bits).
\<close>

definition noise2D :: "real \<Rightarrow> real \<Rightarrow> real" where
  "noise2D x y =
    (let X = \<lfloor>x\<rfloor> AND 255;
         Y = \<lfloor>y\<rfloor> AND 255;
         x' = x - of_int \<lfloor>x\<rfloor>;
         y' = y - of_int \<lfloor>y\<rfloor>;
         u = fade x';
         v = fade y';
         A = p_table X + Y;
         B = p_table (X + 1) + Y
     in lerp v
          (lerp u (grad (p_table A) x' y') (grad (p_table B) (x' - 1) y'))
          (lerp u (grad (p_table (A + 1)) x' (y' - 1)) (grad (p_table (B + 1)) (x' - 1) (y' - 1))))"


section \<open>Parameters\<close>

text \<open>
  The five grain classes are the keys of \<open>params.sedimentSizes\<close> and of a droplet's
  \<open>sedimentDistribution\<close>; \<open>Object.entries\<close> visits them in the order of \<open>grains\<close>.
\<close>

datatype grain = veryFine | fine | medium | coarse | veryCoarse

definition grains :: "grain list" where
  "grains = [veryFine, fine, medium, coarse, veryCoarse]"

record sedimentSize =
  grainSize :: real
  capacity :: real
  angleOfRepose :: real

record params =
  inertia :: real
  friction :: real
  sedimentCapacityFactor :: real
  depositionRate :: real
  evaporationRate :: real
  minVolume :: real
  initialVolume :: real
  initialSpeed :: real
  maxDropletLifetime :: real
  useMultiScale :: bool
  scales :: "real list"
  scaleWeights :: "real list"
  useSedimentSizes :: bool
  sedimentSizes :: "grain \<Rightarrow> sedimentSize"
  useFlowAccumulation :: bool
  flowAccumulationFactor :: real
  useTemperature :: bool
  temperature :: real
  viscosityFactor :: real
  useMicroDetails :: bool
  microDetailScale :: real
  microDetailStrength :: real
  useTalusFormation :: bool
  talusAngleThreshold :: real
  talusFormationRate :: real
  talusParticleSize :: real
  talusStabilityFactor :: real
  talusErosionRate :: real
  talusDepositionRate :: real
  talusMaxHeight :: real
  talusMinSlope :: real
  talusMaxSlope :: real

definition defaultSedimentSizes :: "real \<Rightarrow> grain \<Rightarrow> sedimentSize" where
  "defaultSedimentSizes resolutionFactor g =
    (case g of
       veryFine \<Rightarrow> \<lparr>grainSize = 0.02 * resolutionFactor, capacity = 1.0, angleOfRepose = 35\<rparr>
     | fine \<Rightarrow> \<lparr>grainSize = 0.05 * resolutionFactor, capacity = 0.8, angleOfRepose = 32\<rparr>
     | medium \<Rightarrow> \<lparr>grainSize = 0.1 * resolutionFactor, capacity = 0.6, angleOfRepose = 30\<rparr>
     | coarse \<Rightarrow> \<lparr>grainSize = 0.2 * resolutionFactor, capacity = 0.4, angleOfRepose = 28\<rparr>
     | veryCoarse \<Rightarrow> \<lparr>grainSize = 0.4 * resolutionFactor, capacity = 0.2, angleOfRepose = 25\<rparr>)"

text \<open>
  The resolution-scaled defaults of the constructor (\<open>scaledParams\<close>), for a grid with
  cells: \<open>resolutionFactor\<close> is then positive and every default is a finite number. (On
  an empty grid the source's negative powers of 0 are \<open>Infinity\<close>; the theorems that
  depend on a parameter's value are about grids with cells.) A parameter object of the
  model is well-formed: every field is there, the numbers are finite, and the tables
  have the shape of the defaults.
\<close>

definition scaledParams :: "real \<Rightarrow> params" where
  "scaledParams resolutionFactor =
    \<lparr>inertia = 0.01 * resolutionFactor powr (- 0.5),
     friction = 0.005 * resolutionFactor powr (- 0.5),
     sedimentCapacityFactor = 1.0 * resolutionFactor,
     depositionRate = 0.08 * resolutionFactor,
     evaporationRate = 0.002 * resolutionFactor powr (- 0.5),
     minVolume = 0.001 * resolutionFactor powr (- 1),
     initialVolume = 0.2 * resolutionFactor,
     initialSpeed = 0.2 * sqrt resolutionFactor,
     maxDropletLifetime = of_int \<lfloor>120 * sqrt resolutionFactor\<rfloor>,
     useMultiScale = True,
     scales = map (\<lambda>s. s * resolutionFactor) [1.0, 0.5, 0.25, 0.125, 0.0625],
     scaleWeights = [0.3, 0.25, 0.2, 0.15, 0.1],
     useSedimentSizes = True,
     sedimentSizes = defaultSedimentSizes resolutionFactor,
     useFlowAccumulation = True,
     flowAccumulationFactor = 0.05 * resolutionFactor,
     useTemperature = True,
     temperature = 20,
     viscosityFactor = 0.01 * resolutionFactor powr (- 0.5),
     useMicroDetails = True,
     microDetailScale = 0.01 * resolutionFactor,
     microDetailStrength = 0.1 * resolutionFactor,
     useTalusFormation = True,
     talusAngleThreshold = 30,
     talusFormationRate = 0.15 * resolutionFactor,
     talusParticleSize = 0.1 * resolutionFactor,
     talusStabilityFactor = 0.8,
     talusErosionRate = 0.05 * resolutionFactor,
     talusDepositionRate = 0.1 * resolutionFactor,
     talusMaxHeight = 0.5 * resolutionFactor,
     talusMinSlope = 25,
     talusMaxSlope = 45\<rparr>"

section \<open>Droplets and the engine state\<close>

text \<open>
  A droplet object; the fields carry the prefix \<open>d_\<close> (\<open>d.x\<close> is \<open>d_x d\<close>).
  \<open>sedimentDistribution\<close> is \<open>null\<close> (\<open>None\<close>) when grain sizes are switched off.
\<close>

record droplet =
  d_x :: real
  d_y :: real
  d_dx :: real
  d_dy :: real
  d_speed :: real
  d_water :: real
  d_sediment :: real
  d_lifetime :: nat
  d_alive :: bool
  d_sedimentDistribution :: "(grain \<Rightarrow> real) option"

text \<open>
  The fields of a simulator object. A map that the constructor did not allocate, the
  droplet pool before it is assigned and the activity flag before the first
  \<open>pause\<close>/\<open>resume\<close>/\<open>resetDroplets\<close> are \<open>undefined\<close>, here \<open>None\<close>.
\<close>

record engine =
  width :: int
  height :: int
  heightMap :: "real list"
  params :: params
  flowMap :: "real list option"
  microDetailMap :: "real list option"
  microDetailNoise :: "real list option"
  talusMap :: "real list option"
  slopeMap :: "real list option"
  droplets :: "droplet list option"
  dropletsActive :: "bool option"

text \<open>Typed-array access at a computed index: a write at a negative index is ignored.\<close>

definition aget :: "real list \<Rightarrow> int \<Rightarrow> real" where
  "aget a i = a ! nat i"

definition aset :: "real list \<Rightarrow> int \<Rightarrow> real \<Rightarrow> real list" where
  "aset a i v = (if 0 \<le> i then a[nat i := v] else a)"

definition toIndex :: "int \<Rightarrow> int \<Rightarrow> int \<Rightarrow> int" where
  "toIndex w x y = y * w + x"

section \<open>Construction\<close>

text \<open>
  \<open>_initializeMicroDetailNoise\<close>: four octaves of noise per cell, the amplitude halving
  and the frequency doubling, scaled by \<open>microDetailStrength\<close>.
\<close>

definition octaves :: "real \<Rightarrow> real \<Rightarrow> real" where
  "octaves nx ny =
    fst (fold (\<lambda>i (v, amplitude, frequency).
                 (v + noise2D (nx * frequency) (ny * frequency) * amplitude,
                  amplitude * 0.5, frequency * 2))
              [0..<4] (0, 1, 1))"

definition initializeMicroDetailNoise :: "int \<Rightarrow> int \<Rightarrow> params \<Rightarrow> real list \<Rightarrow> real list" where
  "initializeMicroDetailNoise w h p a =
    fold (\<lambda>y a. fold (\<lambda>x a.
            aset a (toIndex w x y)
              (octaves (of_int x * microDetailScale p) (of_int y * microDetailScale p)
                 * microDetailStrength p))
          [0..w - 1] a)
      [0..h - 1] a"

text \<open>\<open>_computeSlopeMap\<close>: central differences over the interior cells, in degrees.\<close>

definition computeSlopeMap :: "int \<Rightarrow> int \<Rightarrow> real list \<Rightarrow> real list \<Rightarrow> real list" where
  "computeSlopeMap w h hm sm =
    fold (\<lambda>y sm. fold (\<lambda>x sm.
            (let idx = y * w + x;
                 dx = (aget hm (idx + 1) - aget hm (idx - 1)) / 2;
                 dy = (aget hm ((y + 1) * w + x) - aget hm ((y - 1) * w + x)) / 2;
                 slope = arctan (sqrt (dx * dx + dy * dy)) * (180 / pi)
             in aset sm idx slope))
          [1..w - 2] sm)
      [1..h - 2] sm"

text \<open>
  The constructor: the overlay \<open>ov\<close> stands for \<open>Object.assign(scaledParams, params)\<close>,
  the fields of the caller's object written over the defaults. The maps are allocated
  under the flags of the merged parameters, each \<open>new Float32Array(width * height)\<close>
  throwing for a negative length; an object whose constructor throws does not exist.
  \<open>allocMaps\<close> is the block "Initialize maps", which \<open>reset\<close> repeats word for word.
\<close>

definition allocMaps :: "engine \<Rightarrow> error + engine" where
  "allocMaps e =
    (let n = width e * height e; w = width e; h = height e; p = params e in
     bindE (if useFlowAccumulation p
            then bindE (newFloat32Array n) (\<lambda>a. Inr (e\<lparr>flowMap := Some a\<rparr>))
            else Inr e) (\<lambda>e1.
     bindE (if useMultiScale p
            then bindE (newFloat32Array n) (\<lambda>a. Inr (e1\<lparr>microDetailMap := Some a\<rparr>))
            else Inr e1) (\<lambda>e2.
     bindE (if useMicroDetails p
            then bindE (newFloat32Array n) (\<lambda>a.
                   Inr (e2\<lparr>microDetailNoise := Some (initializeMicroDetailNoise w h p a)\<rparr>))
            else Inr e2) (\<lambda>e3.
     if useTalusFormation p
     then bindE (newFloat32Array n) (\<lambda>a.
          bindE (newFloat32Array n) (\<lambda>b.
            Inr (e3\<lparr>talusMap := Some a,
                    slopeMap := Some (computeSlopeMap w h (heightMap e3) b)\<rparr>)))
     else Inr e3))))"

definition constructor :: "int \<Rightarrow> int \<Rightarrow> real list \<Rightarrow> (params \<Rightarrow> params) \<Rightarrow> error + engine" where
  "constructor w h hm ov =
    (let resolutionFactor = sqrt (of_int (w * h) / (500 * 500)) in
     allocMaps
       \<lparr>width = w, height = h, heightMap = hm,
        params = ov (scaledParams resolutionFactor),
        flowMap = None, microDetailMap = None, microDetailNoise = None,
        talusMap = None, slopeMap = None, droplets = None, dropletsActive = None\<rparr>)"


section \<open>Droplet creation\<close>

text \<open>
  \<open>Math.random()\<close> is an input of the model: \<open>rnd k\<close> is the \<open>k\<close>-th draw, each in
  \<open>[0, 1)\<close>. A function that draws returns the index of the next draw.
\<close>

definition calculateInitialSedimentDistribution :: "(nat \<Rightarrow> real) \<Rightarrow> nat \<Rightarrow> grain \<Rightarrow> real" where
  "calculateInitialSedimentDistribution rnd k g =
    (case g of
       veryFine \<Rightarrow> rnd k * 0.3 + 0.4
     | fine \<Rightarrow> rnd (k + 1) * 0.2 + 0.2
     | medium \<Rightarrow> rnd (k + 2) * 0.15 + 0.1
     | coarse \<Rightarrow> rnd (k + 3) * 0.1 + 0.05
     | veryCoarse \<Rightarrow> rnd (k + 4) * 0.05 + 0.02)"

definition createDroplet :: "engine \<Rightarrow> (nat \<Rightarrow> real) \<Rightarrow> nat \<Rightarrow> droplet \<times> nat" where
  "createDroplet e rnd k =
    (\<lparr>d_x = rnd k * of_int (width e - 2) + 1,
      d_y = rnd (k + 1) * of_int (height e - 2) + 1,
      d_dx = 0,
      d_dy = 0,
      d_speed = initialSpeed (params e),
      d_water = initialVolume (params e),
      d_sediment = 0,
      d_lifetime = 0,
      d_alive = True,
      d_sedimentDistribution =
        (if useSedimentSizes (params e)
         then Some (calculateInitialSedimentDistribution rnd (k + 2)) else None)\<rparr>,
     if useSedimentSizes (params e) then k + 7 else k + 2)"

text \<open>\<open>Array(n).fill().map(() => this._createDroplet())\<close>: \<open>n\<close> droplets, in order.\<close>

fun createDroplets :: "engine \<Rightarrow> (nat \<Rightarrow> real) \<Rightarrow> nat \<Rightarrow> nat \<Rightarrow> droplet list \<times> nat" where
  "createDroplets e rnd k 0 = ([], k)"
| "createDroplets e rnd k (Suc n) =
    (let (d, k1) = createDroplet e rnd k;
         (ds, k2) = createDroplets e rnd k1 n
     in (d # ds, k2))"

section \<open>Sampling and writing the grid\<close>

definition bilinearInterp :: "int \<Rightarrow> int \<Rightarrow> real list \<Rightarrow> real \<Rightarrow> real \<Rightarrow> real" where
  "bilinearInterp w h hm x y =
    (let cellX = \<lfloor>x\<rfloor>;
         cellY = \<lfloor>y\<rfloor>;
         offX = x - of_int cellX;
         offY = y - of_int cellY
     in if cellX < 0 \<or> cellY < 0 \<or> cellX \<ge> w - 1 \<or> cellY \<ge> h - 1 then 0
        else (let h00 = aget hm (toIndex w cellX cellY);
                  h10 = aget hm (toIndex w (cellX + 1) cellY);
                  h01 = aget hm (toIndex w cellX (cellY + 1));
                  h11 = aget hm (toIndex w (cellX + 1) (cellY + 1))
              in h00 * (1 - offX) * (1 - offY) + h10 * offX * (1 - offY)
                 + h01 * (1 - offX) * offY + h11 * offX * offY))"

definition calcGradient :: "int \<Rightarrow> int \<Rightarrow> real list \<Rightarrow> real \<Rightarrow> real \<Rightarrow> real \<times> real" where
  "calcGradient w h hm x y =
    (let cellX = \<lfloor>x\<rfloor>;
         cellY = \<lfloor>y\<rfloor>
     in if cellX < 1 \<or> cellY < 1 \<or> cellX \<ge> w - 2 \<or> cellY \<ge> h - 2 then (0, 0)
        else (let hL = bilinearInterp w h hm (x - 1) y;
                  hR = bilinearInterp w h hm (x + 1) y;
                  hD = bilinearInterp w h hm x (y - 1);
                  hU = bilinearInterp w h hm x (y + 1)
              in ((hR - hL) * 0.5, (hU - hD) * 0.5)))"

text \<open>\<open>a[i] += v\<close> and \<open>a[i] = Math.max(0, a[i])\<close> on a typed array.\<close>

definition addAt :: "real list \<Rightarrow> int \<Rightarrow> real \<Rightarrow> real list" where
  "addAt a i v = aset a i (aget a i + v)"

definition clampAt :: "real list \<Rightarrow> int \<Rightarrow> real list" where
  "clampAt a i = aset a i (max 0 (aget a i))"

definition inCell :: "int \<Rightarrow> int \<Rightarrow> int \<Rightarrow> int \<Rightarrow> bool" where
  "inCell w h x y \<longleftrightarrow> x \<ge> 0 \<and> y \<ge> 0 \<and> x < w - 1 \<and> y < h - 1"

definition bilinearAdd ::
  "int \<Rightarrow> int \<Rightarrow> real list \<Rightarrow> int \<Rightarrow> int \<Rightarrow> real \<Rightarrow> real \<Rightarrow> real \<Rightarrow> real list" where
  "bilinearAdd w h hm x y offX offY v =
    (let w00 = (1 - offX) * (1 - offY);
         w10 = offX * (1 - offY);
         w01 = (1 - offX) * offY;
         w11 = offX * offY
     in if inCell w h x y then
          (let a1 = addAt hm (toIndex w x y) (v * w00);
               a2 = addAt a1 (toIndex w (x + 1) y) (v * w10);
               a3 = addAt a2 (toIndex w x (y + 1)) (v * w01);
               a4 = addAt a3 (toIndex w (x + 1) (y + 1)) (v * w11);
               a5 = clampAt a4 (toIndex w x y);
               a6 = clampAt a5 (toIndex w (x + 1) y);
               a7 = clampAt a6 (toIndex w x (y + 1))
           in clampAt a7 (toIndex w (x + 1) (y + 1)))
        else hm)"


section \<open>One sub-step of a droplet\<close>

text \<open>
  The three scales that \<open>stepDroplets\<close> computes first. With \<open>width * height \<le> 0\<close> the
  source's \<open>resolutionScale\<close> is 0 or \<open>NaN\<close> and its loop test \<open>step < dropletMultiplier\<close> is
  false at once; here \<open>resolutionScale\<close> is then \<open>\<le> 0\<close>, with the same effect, and
  \<open>erosionScale\<close> is not used.
\<close>

definition resolutionScale :: "int \<Rightarrow> int \<Rightarrow> real" where
  "resolutionScale w h = sqrt (of_int (w * h) / (500 * 500))"

definition erosionScale :: "int \<Rightarrow> int \<Rightarrow> real" where
  "erosionScale w h = (1.0 / resolutionScale w h) powr 0.5 * min (resolutionScale w h) 3.0"

definition dropletMultiplier :: "int \<Rightarrow> int \<Rightarrow> real" where
  "dropletMultiplier w h = min (resolutionScale w h) 2.0"

text \<open>
  \<open>_calculateViscosity(temperature, water)\<close>. With \<open>1 + temperature * viscosityFactor = 0\<close>
  the source computes \<open>1.0 / 0\<close>, which is \<open>Infinity\<close>, and returns \<open>Infinity\<close>, \<open>-Infinity\<close>
  or \<open>NaN\<close>; the droplet's velocity and position become \<open>NaN\<close> from it. The model stops
  there.
\<close>

definition calculateViscosity :: "params \<Rightarrow> real \<Rightarrow> real \<Rightarrow> error + real" where
  "calculateViscosity p temp water =
    (if \<not> useTemperature p then Inr 1.0
     else if 1.0 + temp * viscosityFactor p = 0 then Inl NonFinite
     else (let baseViscosity = 1.0 / (1.0 + temp * viscosityFactor p)
           in Inr (baseViscosity * (1.0 - water * 0.1))))"

text \<open>
  \<open>_updateTalusFormation(x, y, erosion, deposition)\<close>. The slope test passed, the source
  computes \<open>talusFactor\<close> and \<open>talusChange\<close> and then writes \<open>talusMap[idx]\<close> and
  \<open>heightMap[idx]\<close>. Without a talus map the write throws, whatever the two numbers
  are. With \<open>talusMaxSlope = talusMinSlope\<close> the slope test admits only that one
  slope, \<open>talusFactor\<close> is \<open>0 / 0\<close>, which is \<open>NaN\<close>, and \<open>Math.min\<close> and \<open>Math.max\<close> hand the
  \<open>NaN\<close> on into both maps; the model stops there.
\<close>

definition updateTalusFormation :: "engine \<Rightarrow> real \<Rightarrow> real \<Rightarrow> real \<Rightarrow> real \<Rightarrow> engine outcome" where
  "updateTalusFormation e x y erosion deposition =
    (let p = params e in
     if \<not> useTalusFormation p then Inr e
     else
      (let idx = \<lfloor>y\<rfloor> * width e + \<lfloor>x\<rfloor> in
       case slopeMap e of
         None \<Rightarrow> Inl (TypeError, e)
       | Some sm \<Rightarrow>
          (let slope = aget sm idx in
           if slope \<ge> talusMinSlope p \<and> slope \<le> talusMaxSlope p then
             (case talusMap e of
                None \<Rightarrow> Inl (TypeError, e)
              | Some tm \<Rightarrow>
                 if talusMaxSlope p - talusMinSlope p = 0 then Inl (NonFinite, e)
                 else
                  (let talusFactor = (slope - talusMinSlope p) / (talusMaxSlope p - talusMinSlope p);
                       talusChange = (erosion * talusErosionRate p - deposition * talusDepositionRate p)
                                     * talusFactor * talusFormationRate p;
                       tm1 = aset tm idx (max 0 (min (aget tm idx + talusChange) (talusMaxHeight p)));
                       hm1 = addAt (heightMap e) idx (aget tm1 idx * talusStabilityFactor p)
                   in Inr (e\<lparr>talusMap := Some tm1, heightMap := hm1\<rparr>)))
           else Inr e)))"

text \<open>
  The body of the inner loop of \<open>stepDroplets\<close>, cut into its commented blocks.
  \<open>moveDroplet\<close>: gradient, viscosity, new velocity (normalised unless zero) and the
  move by \<open>erosionScale\<close>. Nothing is written before the viscosity is computed, so a
  stop there leaves engine and droplet as they were.
\<close>

definition moveDroplet :: "engine \<Rightarrow> real \<Rightarrow> droplet \<Rightarrow> error + droplet" where
  "moveDroplet e es d =
    (let p = params e;
         g = calcGradient (width e) (height e) (heightMap e) (d_x d) (d_y d)
     in case calculateViscosity p (temperature p) (d_water d) of
          Inl err \<Rightarrow> Inl err
        | Inr viscosity \<Rightarrow>
           (let dx1 = d_dx d * inertia p * viscosity - fst g * (1 - inertia p) * es;
                dy1 = d_dy d * inertia p * viscosity - snd g * (1 - inertia p) * es;
                len = sqrt (dx1 * dx1 + dy1 * dy1);
                dx2 = (if len \<noteq> 0 then dx1 / len else dx1);
                dy2 = (if len \<noteq> 0 then dy1 / len else dy1)
            in Inr (d\<lparr>d_dx := dx2, d_dy := dy2,
                      d_x := d_x d + dx2 * es, d_y := d_y d + dy2 * es\<rparr>)))"

text \<open>The test commented "Clamp to bounds".\<close>

definition outOfBounds :: "engine \<Rightarrow> droplet \<Rightarrow> bool" where
  "outOfBounds e d \<longleftrightarrow>
    d_x d < 1 \<or> d_x d > of_int (width e - 2) \<or> d_y d < 1 \<or> d_y d > of_int (height e - 2)"

definition updateSpeed :: "params \<Rightarrow> real \<Rightarrow> real \<Rightarrow> droplet \<Rightarrow> droplet" where
  "updateSpeed p es deltaH d =
    d\<lparr>d_speed := sqrt (max 0 (d_speed d * d_speed d + deltaH * - 9.81 * es)) * (1 - friction p)\<rparr>"

text \<open>"Calculate base capacity" and "Apply sediment size distribution".\<close>

definition baseCapacity :: "params \<Rightarrow> real \<Rightarrow> real \<Rightarrow> droplet \<Rightarrow> real" where
  "baseCapacity p es deltaH d =
    (let cap =
       (if useMultiScale p
        then fold (\<lambda>i cap.
                     (let scale = scales p ! i;
                          weight = scaleWeights p ! i;
                          scaledCapacity = max (- deltaH * scale) 0.001 * d_speed d * d_water d
                                           * sedimentCapacityFactor p * es powr 1.5
                      in cap + scaledCapacity * weight))
                  [0..<length (scales p)] 0
        else max (- deltaH) 0.001 * d_speed d * d_water d
             * sedimentCapacityFactor p * es powr 1.5)
     in case d_sedimentDistribution d of
          Some distribution \<Rightarrow>
            if useSedimentSizes p
            then fold (\<lambda>g acc. acc + cap * capacity (sedimentSizes p g) * distribution g) grains 0
            else cap
        | None \<Rightarrow> cap)"

text \<open>
  "Apply flow accumulation": the flux is added at the droplet's cell and the capacity
  scaled. With the flag set and no flow map, the access throws before anything is
  written.
\<close>

definition flowAccumulate :: "engine \<Rightarrow> real \<Rightarrow> droplet \<Rightarrow> real \<Rightarrow> error + engine \<times> real" where
  "flowAccumulate e es d cap =
    (let p = params e in
     if useFlowAccumulation p then
       (case flowMap e of
          None \<Rightarrow> Inl TypeError
        | Some fm \<Rightarrow>
           (let idx = \<lfloor>d_y d\<rfloor> * width e + \<lfloor>d_x d\<rfloor>;
                fm1 = addAt fm idx (d_water d * d_speed d * flowAccumulationFactor p * es);
                flowFactor = aget fm1 idx / 200
            in Inr (e\<lparr>flowMap := Some fm1\<rparr>, cap * (1 + flowFactor * es))))
     else Inr (e, cap))"

text \<open>
  "Add micro-details": \<open>_bilinearAdd(this.microDetailMap, cellX, cellY, offX, offY, v)\<close>
  under \<open>useMicroDetails\<close>, with \<open>v = micro * (1 + microDetailNoise[cell])\<close>. The noise
  is read while the arguments are evaluated; the map is dereferenced inside
  \<open>_bilinearAdd\<close>, behind its cell test.
\<close>

definition addMicroDetail ::
  "engine \<Rightarrow> droplet \<Rightarrow> int \<Rightarrow> int \<Rightarrow> real \<Rightarrow> real \<Rightarrow> real \<Rightarrow> engine outcome" where
  "addMicroDetail e d cellX cellY offX offY micro =
    (let w = width e; h = height e in
     if \<not> useMicroDetails (params e) then Inr e
     else
      (case microDetailNoise e of
         None \<Rightarrow> Inl (TypeError, e)
       | Some noise \<Rightarrow>
          (let v = micro * (1 + aget noise (\<lfloor>d_y d\<rfloor> * w + \<lfloor>d_x d\<rfloor>)) in
           case microDetailMap e of
             None \<Rightarrow> if inCell w h cellX cellY then Inl (TypeError, e) else Inr e
           | Some m \<Rightarrow>
               Inr (e\<lparr>microDetailMap := Some (bilinearAdd w h m cellX cellY offX offY v)\<rparr>))))"

text \<open>
  "Enhanced erosion and deposition". \<open>cellX\<close>, \<open>cellY\<close>, \<open>offX\<close>, \<open>offY\<close> are those of the
  position before the move; the talus update and the noise lookup use the new position.
\<close>

definition erodeOrDeposit ::
  "engine \<Rightarrow> real \<Rightarrow> droplet \<Rightarrow> int \<Rightarrow> int \<Rightarrow> real \<Rightarrow> real \<Rightarrow> real \<Rightarrow> real
     \<Rightarrow> (engine \<times> droplet) outcome" where
  "erodeOrDeposit e es d cellX cellY offX offY cap newH =
    (let p = params e; w = width e; h = height e in
     if d_sediment d > cap then
       (let deposit = (d_sediment d - cap) * depositionRate p * es powr 1.5;
            e1 = e\<lparr>heightMap := bilinearAdd w h (heightMap e) cellX cellY offX offY deposit\<rparr>
        in case updateTalusFormation e1 (d_x d) (d_y d) 0 deposit of
             Inl (err, e2) \<Rightarrow> Inl (err, (e2, d))
           | Inr e2 \<Rightarrow>
              (case addMicroDetail e2 d cellX cellY offX offY (deposit * 0.1 * es) of
                 Inl (err, e3) \<Rightarrow> Inl (err, (e3, d))
               | Inr e3 \<Rightarrow> Inr (e3, d\<lparr>d_sediment := d_sediment d - deposit\<rparr>)))
     else
       (let erode = min ((cap - d_sediment d) * depositionRate p * es powr 1.5) newH in
        if erode > 0 then
          (let e1 = e\<lparr>heightMap := bilinearAdd w h (heightMap e) cellX cellY offX offY (- erode)\<rparr>
           in case updateTalusFormation e1 (d_x d) (d_y d) erode 0 of
                Inl (err, e2) \<Rightarrow> Inl (err, (e2, d))
              | Inr e2 \<Rightarrow>
                 (case addMicroDetail e2 d cellX cellY offX offY (- (erode * 0.1 * es)) of
                    Inl (err, e3) \<Rightarrow> Inl (err, (e3, d))
                  | Inr e3 \<Rightarrow> Inr (e3, d\<lparr>d_sediment := d_sediment d + erode\<rparr>)))
        else Inr (e, d)))"

text \<open>"Evaporate" and "Kill droplet if conditions met".\<close>

definition evaporate :: "params \<Rightarrow> real \<Rightarrow> droplet \<Rightarrow> droplet" where
  "evaporate p es d =
    (let d1 = d\<lparr>d_water := d_water d * (1 - evaporationRate p * es powr (- 0.5)),
                d_lifetime := d_lifetime d + 1\<rparr>
     in if d_water d1 < minVolume p \<or> real (d_lifetime d1) > maxDropletLifetime p
           \<or> d_speed d1 < 0.01
        then d1\<lparr>d_alive := False\<rparr> else d1)"

text \<open>
  One pass through the body of \<open>for (let step = 0; step < dropletMultiplier; step++)\<close>.
  The \<open>continue\<close> after \<open>d.alive = false\<close> ends this pass only; the loop goes on.
\<close>

definition subStep :: "engine \<times> droplet \<Rightarrow> (engine \<times> droplet) outcome" where
  "subStep ed =
    (let e = fst ed; d = snd ed;
         p = params e; w = width e; h = height e;
         es = erosionScale w h;
         cellX = \<lfloor>d_x d\<rfloor>;
         cellY = \<lfloor>d_y d\<rfloor>;
         offX = d_x d - of_int cellX;
         offY = d_y d - of_int cellY;
         h0 = bilinearInterp w h (heightMap e) (d_x d) (d_y d)
     in case moveDroplet e es d of
          Inl err \<Rightarrow> Inl (err, (e, d))
        | Inr d1 \<Rightarrow>
           if outOfBounds e d1 then Inr (e, d1\<lparr>d_alive := False\<rparr>)
           else
            (let newH = bilinearInterp w h (heightMap e) (d_x d1) (d_y d1);
                 deltaH = newH - h0;
                 d2 = updateSpeed p es deltaH d1
             in case flowAccumulate e es d2 (baseCapacity p es deltaH d2) of
                  Inl err \<Rightarrow> Inl (err, (e, d2))
                | Inr (e1, cap) \<Rightarrow>
                   (case erodeOrDeposit e1 es d2 cellX cellY offX offY cap newH of
                      Inl t \<Rightarrow> Inl t
                    | Inr (e2, d3) \<Rightarrow> Inr (e2, evaporate p es d3))))"

section \<open>The step algorithm\<close>

text \<open>
  The inner loop: \<open>step\<close> counts the passes, the bound \<open>m\<close> is the real number
  \<open>dropletMultiplier\<close>. A pass that throws (or stops) ends the loop.
\<close>

function subSteps :: "real \<Rightarrow> nat \<Rightarrow> engine \<times> droplet \<Rightarrow> (engine \<times> droplet) outcome" where
  "subSteps m step ed =
    (if real step < m
     then (case subStep ed of Inl t \<Rightarrow> Inl t | Inr ed1 \<Rightarrow> subSteps m (Suc step) ed1)
     else Inr ed)"
  by pat_completeness auto
termination
  by (relation "measure (\<lambda>(m, step, ed). nat \<lceil>m\<rceil> - step)") (auto, linarith)

text \<open>
  The outer loop over the pool: \<open>i < droplets.length && activeCount < batchSize\<close>, dead
  droplets skipped. A droplet is an object of the pool, mutated in place: its new
  state is written back at its index, also when a pass throws.
\<close>

function dropletLoop ::
  "int \<Rightarrow> real \<Rightarrow> nat \<Rightarrow> int \<Rightarrow> engine \<times> droplet list \<Rightarrow> (engine \<times> droplet list) outcome" where
  "dropletLoop batchSize m i activeCount eds =
    (let e = fst eds; ds = snd eds in
     if i < length ds \<and> activeCount < batchSize then
       (if \<not> d_alive (ds ! i) then dropletLoop batchSize m (Suc i) activeCount eds
        else (case subSteps m 0 (e, ds ! i) of
                Inl (err, (e1, d1)) \<Rightarrow> Inl (err, (e1, ds[i := d1]))
              | Inr (e1, d1) \<Rightarrow>
                  dropletLoop batchSize m (Suc i) (activeCount + 1) (e1, ds[i := d1])))
     else Inr eds)"
  by pat_completeness auto
termination
  by (relation "measure (\<lambda>(batchSize, m, i, activeCount, eds). length (snd eds) - i)") auto

definition recomputeSlopeMap :: "engine \<Rightarrow> engine outcome" where
  "recomputeSlopeMap e =
    (case slopeMap e of
       Some sm \<Rightarrow> Inr (e\<lparr>slopeMap := Some (computeSlopeMap (width e) (height e) (heightMap e) sm)\<rparr>)
     | None \<Rightarrow> if 1 < height e - 1 \<and> 1 < width e - 1 then Inl (TypeError, e) else Inr e)"

text \<open>
  \<open>stepDroplets(batchSize, onStep)\<close>. \<open>r\<close> is the draw of \<open>Math.random()\<close> that decides
  whether the slope map is recomputed (drawn only with talus formation on). A call
  that returns yields the engine, the return value (is any droplet alive) and the
  copy of the height field handed to \<open>onStep\<close>.
\<close>

definition stepDroplets :: "engine \<Rightarrow> int \<Rightarrow> real \<Rightarrow> (error \<times> engine) + (engine \<times> bool \<times> real list)" where
  "stepDroplets e batchSize r =
    (case droplets e of
       None \<Rightarrow> Inl (TypeError, e)
     | Some ds \<Rightarrow>
        (case dropletLoop batchSize (dropletMultiplier (width e) (height e)) 0 0 (e, ds) of
           Inl (err, (e1, ds1)) \<Rightarrow> Inl (err, e1\<lparr>droplets := Some ds1\<rparr>)
         | Inr (e1, ds1) \<Rightarrow>
            (let e2 = e1\<lparr>droplets := Some ds1\<rparr> in
             case (if useTalusFormation (params e2) \<and> r < 0.1
                   then recomputeSlopeMap e2 else Inr e2) of
               Inl t \<Rightarrow> Inl t
             | Inr e3 \<Rightarrow> Inr (e3, list_ex d_alive ds1, heightMap e3))))"

section \<open>Pause, resume, reset\<close>

definition pause :: "engine \<Rightarrow> engine" where
  "pause e = e\<lparr>dropletsActive := Some False\<rparr>"

definition resume :: "engine \<Rightarrow> engine" where
  "resume e = e\<lparr>dropletsActive := Some True\<rparr>"

text \<open>
  \<open>reset(heightMap)\<close>: the field is replaced by a copy of the argument, the pool by as
  many fresh droplets, the maps are allocated anew.
\<close>

definition reset :: "engine \<Rightarrow> real list \<Rightarrow> (nat \<Rightarrow> real) \<Rightarrow> engine outcome" where
  "reset e hm rnd =
    (let e1 = e\<lparr>heightMap := hm\<rparr> in
     case droplets e1 of
       None \<Rightarrow> Inl (TypeError, e1)
     | Some ds \<Rightarrow>
        (let e2 = e1\<lparr>droplets := Some (fst (createDroplets e1 rnd 0 (length ds)))\<rparr> in
         case allocMaps e2 of
           Inl err \<Rightarrow> Inl (err, e2)
         | Inr e3 \<Rightarrow> Inr e3))"

section \<open>The worker\<close>

text \<open>
  \<open>erosionWorker.js\<close>: the module variable \<open>simulator\<close> (\<open>None\<close> is \<open>null\<close>) and the
  handler \<open>onmessage\<close>, which returns the new value of the variable and the messages
  posted, in order. An error message is either the literal of the source or the
  \<open>message\<close> of a caught exception. In the \<open>init\<close> case the variable is assigned as
  soon as the constructor has returned; \<open>Array(numDroplets)\<close> then throws a
  \<open>RangeError\<close> unless the count is an array length, \<open>0 \<le> numDroplets \<le> 2^32 - 1\<close>.
  \<open>NotModelled\<close> is no message of the source: it stands for what the worker posts after
  a step that has left the finite numbers (nothing is thrown there, so the source posts
  its \<open>progress\<close> and \<open>step\<close> messages, with a content the model does not have).
\<close>

datatype request =
    Init int int "real list" "params \<Rightarrow> params" int
  | Step int
  | Pause
  | Resume
  | Reset "real list"

datatype response =
    InitSuccess
  | InitFailure error
  | ErrorLiteral string
  | ErrorCaught error
  | ProgressMsg "real list"
  | StepMsg bool "real list"
  | PauseMsg
  | ResumeMsg
  | ResetMsg
  | NotModelled

definition onmessage :: "(nat \<Rightarrow> real) \<Rightarrow> engine option \<Rightarrow> request \<Rightarrow> engine option \<times> response list" where
  "onmessage rnd simulator req =
    (case req of
       Init w h hm ov numDroplets \<Rightarrow>
         (case constructor w h hm ov of
            Inl err \<Rightarrow> (simulator, [InitFailure err])
          | Inr e \<Rightarrow>
             if numDroplets < 0 \<or> 4294967295 < numDroplets
             then (Some e, [InitFailure RangeError])
             else (Some (e\<lparr>droplets := Some (fst (createDroplets e rnd 0 (nat numDroplets)))\<rparr>),
                   [InitSuccess]))
     | Step batchSize \<Rightarrow>
         (case simulator of
            None \<Rightarrow> (None, [ErrorLiteral ''Simulator not initialized''])
          | Some e \<Rightarrow>
             (let heightMapCopy = heightMap e in
              case stepDroplets e batchSize (rnd 0) of
                Inl (err, e1) \<Rightarrow>
                  (Some e1, [if err = NonFinite then NotModelled else ErrorCaught err])
              | Inr (e1, alive, updatedHeightMap) \<Rightarrow>
                  (Some e1, [ProgressMsg updatedHeightMap, StepMsg alive heightMapCopy])))
     | Pause \<Rightarrow>
         (case simulator of
            None \<Rightarrow> (None, [ErrorLiteral ''Simulator not initialized''])
          | Some e \<Rightarrow> (Some (pause e), [PauseMsg]))
     | Resume \<Rightarrow>
         (case simulator of
            None \<Rightarrow> (None, [ErrorLiteral ''Simulator not initialized''])
          | Some e \<Rightarrow> (Some (resume e), [ResumeMsg]))
     | Reset hm \<Rightarrow>
         (case simulator of
            None \<Rightarrow> (None, [ErrorLiteral ''Simulator not initialized''])
          | Some e \<Rightarrow>
             (case reset e hm rnd of
                Inl (err, e1) \<Rightarrow> (Some e1, [ErrorCaught err])
              | Inr e1 \<Rightarrow> (Some e1, [ResetMsg]))))"

section \<open>The inner loop in the words of the specification\<close>

text \<open>
  "Each selected droplet is processed for exactly \<open>n\<close> inner sub-steps": \<open>n\<close> passes of
  \<open>subStep\<close> in a row, a throwing pass ending them. This follows the specification's
  wording, to be compared with the loop \<open>subSteps\<close> of the source.
\<close>

fun repeatSubStep :: "nat \<Rightarrow> engine \<times> droplet \<Rightarrow> (engine \<times> droplet) outcome" where
  "repeatSubStep 0 ed = Inr ed"
| "repeatSubStep (Suc n) ed = (case subStep ed of Inl t \<Rightarrow> Inl t | Inr ed1 \<Rightarrow> repeatSubStep n ed1)"


section \<open>Call sequences and observations\<close>

text \<open>
  The simulator the worker holds after an \<open>init\<close> request on a fresh worker, and the
  state an engine is left in by a \<open>stepDroplets\<close> call, returned or thrown.
\<close>

definition initialised ::
  "(nat \<Rightarrow> real) \<Rightarrow> int \<Rightarrow> int \<Rightarrow> real list \<Rightarrow> (params \<Rightarrow> params) \<Rightarrow> int \<Rightarrow> engine" where
  "initialised rnd w h hm ov numDroplets =
     the (fst (onmessage rnd None (Init w h hm ov numDroplets)))"










section \<open>The invariant of the height field\<close>





section \<open>Worked inputs\<close>

text \<open>
  A parameter object that switches the optional models off and fixes the rates:
  \<open>{inertia: 0.5, friction: 0, sedimentCapacityFactor: 0, depositionRate: 1,
  evaporationRate: 0, minVolume: 0, initialVolume: 1, initialSpeed: 1,
  maxDropletLifetime: 5, useMultiScale: false, useSedimentSizes: false,
  useFlowAccumulation: false, useTemperature: false, useMicroDetails: false,
  useTalusFormation: false}\<close>; and the same with a capacity factor of 1 and micro
  details on.
\<close>

definition plainOverlay :: "params \<Rightarrow> params" where
  "plainOverlay p = p\<lparr>inertia := 1 / 2, friction := 0, sedimentCapacityFactor := 0,
     depositionRate := 1, evaporationRate := 0, minVolume := 0, initialVolume := 1,
     initialSpeed := 1, maxDropletLifetime := 5, useMultiScale := False,
     useSedimentSizes := False, useFlowAccumulation := False, useTemperature := False,
     useMicroDetails := False, useTalusFormation := False\<rparr>"

definition microOverlay :: "params \<Rightarrow> params" where
  "microOverlay p = (plainOverlay p)\<lparr>sedimentCapacityFactor := 1, useMicroDetails := True\<rparr>"



definition edgeEngine :: engine where
  "edgeEngine = initialised (\<lambda>k. 3 / 4) 4 4 (replicate 16 1) plainOverlay 1"

definition microEngine :: engine where
  "microEngine = initialised (\<lambda>k. 1 / 2) 4 4 (replicate 16 1) microOverlay 1"



definition slopeField :: "real list" where
  "slopeField = map (\<lambda>i. 1124 - real (i mod 1125)) [0..<1265625]"

definition slopeEngine :: engine where
  "slopeEngine = initialised (\<lambda>k. if k = 0 then 1121 / 1123 else 499 / 1123)
                   1125 1125 slopeField plainOverlay 1"

text \<open>
  The variable \<open>simulator\<close> after a fresh worker has received an \<open>init\<close> for the level
  4 x 4 field with a droplet count of 5000000000, more than an array can hold.
\<close>

definition halfStarted :: "engine option" where
  "halfStarted =
     fst (onmessage (\<lambda>k. 1 / 2) None (Init 4 4 (replicate 16 1) plainOverlay 5000000000))"

declare subSteps.simps [simp del] dropletLoop.simps [simp del]

section \<open>The noise field: range\<close>

lemma fade_nonneg: "0 \<le> t \<Longrightarrow> 0 \<le> fade t"
proof -
  assume t: "0 \<le> t"
  have "0 < 6 * t * t - 15 * t + 10"
  proof -
    have "6 * t * t - 15 * t + 10 = 6 * (t - 5/4) * (t - 5/4) + 5/8" by (simp add: algebra_simps)
    moreover have "0 \<le> (t - 5/4) * (t - 5/4)" by simp
    ultimately show ?thesis by linarith
  qed
  then have "0 \<le> t * (t * 6 - 15) + 10" by (simp add: algebra_simps)
  with t show ?thesis unfolding fade_def by simp
qed

lemma fade_le_one: "0 \<le> t \<Longrightarrow> t \<le> 1 \<Longrightarrow> fade t \<le> 1"
proof -
  assume t: "0 \<le> t" "t \<le> 1"
  have e: "1 - fade t = (1 - t) * (1 - t) * (1 - t) * (6 * t * t + 3 * t + 1)"
    by (simp add: fade_def algebra_simps)
  have "0 \<le> (1 - t) * (1 - t) * (1 - t) * (6 * t * t + 3 * t + 1)"
    using t by (intro mult_nonneg_nonneg) auto
  with e show ?thesis by linarith
qed

lemma lerp_bound:
  assumes "0 \<le> t" "t \<le> 1" "\<bar>a\<bar> \<le> c" "\<bar>b\<bar> \<le> c"
  shows "\<bar>lerp t a b\<bar> \<le> c"
proof -
  have e: "lerp t a b = (1 - t) * a + t * b" by (simp add: lerp_def algebra_simps)
  have "\<bar>(1 - t) * a\<bar> \<le> (1 - t) * c" using assms by (simp add: abs_mult mult_left_mono)
  moreover have "\<bar>t * b\<bar> \<le> t * c" using assms by (simp add: abs_mult mult_left_mono)
  moreover have "(1 - t) * c + t * c = c" by (simp add: algebra_simps)
  ultimately show ?thesis unfolding e by linarith
qed

text \<open>A hash has four bits, so \<open>h >> 4\<close> is 0 and \<open>gradY\<close> is always 1.\<close>

lemma gradY_is_one: "drop_bit 4 ((h::int) AND 15) = 0"
proof -
  have "h AND 15 = take_bit 4 h" by (simp add: take_bit_eq_mask mask_eq_exp_minus_1)
  then show ?thesis by (simp add: drop_bit_take_bit)
qed

lemma grad_bound: "\<bar>grad hash x y\<bar> \<le> 8 * \<bar>x\<bar> + \<bar>y\<bar>"
proof -
  define c :: real where "c = of_int (1 + ((hash AND 15) AND 7))"
  have "0 \<le> (hash AND 15) AND 7" "(hash AND 15) AND 7 \<le> 7" by (simp_all add: AND_upper2)
  then have c: "0 \<le> c" "c \<le> 8" unfolding c_def by simp_all
  have cx: "\<bar>c * x\<bar> \<le> 8 * \<bar>x\<bar>"
    using c by (simp add: abs_mult mult_right_mono)
  have "grad hash x y = c * x + y \<or> grad hash x y = - (c * x + y)"
    unfolding grad_def Let_def gradY_is_one c_def by (simp add: algebra_simps)
  moreover have "\<bar>c * x + y\<bar> \<le> 8 * \<bar>x\<bar> + \<bar>y\<bar>" using cx by linarith
  ultimately show ?thesis by auto
qed

lemma p_table_values:
  "p_table 3 = 91" "p_table 4 = 90" "p_table 94 = 143" "p_table 95 = 54" "p_table 96 = 65"
  by (simp_all add: p_table_def permutation_def)

lemma floor_seven_halves: "\<lfloor>7 / 2 :: real\<rfloor> = 3"
  by linarith

text \<open>
  Claim C7, as stated: the noise sample lies approximately within \<open>[-1, 1]\<close>. It does not:
  the gradient of a corner is \<open>\<plusminus>(1 + (h & 7)) * x \<plusminus> y\<close>, with a factor up to 8, and
  at \<open>(3.5, 4)\<close> the sample is 3.75.
\<close>

theorem noise2D_exceeds_one: "noise2D (7 / 2) 4 = 15 / 4 \<and> 1 < noise2D (7 / 2) 4"
  by (simp add: noise2D_def Let_def floor_seven_halves p_table_values fade_def lerp_def grad_def)

text \<open>
  Claim C7, amended: \<open>_noise2D\<close> is a function of \<open>(x, y)\<close> alone, computed from the
  fixed permutation table, the gradient keyed by the four low bits of a hash, the
  smoothstep \<open>fade\<close> and the bilinear blend \<open>lerp\<close> of the four lattice corners, and
  every sample lies within \<open>[-9, 9]\<close>.
\<close>

theorem noise2D_bound: "\<bar>noise2D x y\<bar> \<le> 9"
proof -
  define fx where "fx = x - of_int \<lfloor>x\<rfloor>"
  define fy where "fy = y - of_int \<lfloor>y\<rfloor>"
  have fx: "0 \<le> fx" "fx \<le> 1" and fy: "0 \<le> fy" "fy \<le> 1"
    unfolding fx_def fy_def by linarith+
  have G: "\<bar>grad k a b\<bar> \<le> 9" if "\<bar>a\<bar> \<le> 1" "\<bar>b\<bar> \<le> 1" for k a b
    using grad_bound[of k a b] that by linarith
  have u: "0 \<le> fade fx" "fade fx \<le> 1" and v: "0 \<le> fade fy" "fade fy \<le> 1"
    using fx fy by (simp_all add: fade_nonneg fade_le_one)
  have a: "\<bar>fx\<bar> \<le> 1" "\<bar>fx - 1\<bar> \<le> 1" "\<bar>fy\<bar> \<le> 1" "\<bar>fy - 1\<bar> \<le> 1"
    using fx fy by simp_all
  show ?thesis
    unfolding noise2D_def Let_def fx_def[symmetric] fy_def[symmetric]
    by (intro lerp_bound u v G a)
qed

theorem noise2D_bound_witness: "\<bar>noise2D (7 / 2) 4\<bar> \<le> 9"
  using noise2D_bound [of "7 / 2" 4] by simp

section \<open>Bilinear sampling at integer coordinates\<close>

lemma bilinearInterp_of_int:
  "bilinearInterp w h hm (of_int x) (of_int y) =
    (if 0 \<le> x \<and> 0 \<le> y \<and> x < w - 1 \<and> y < h - 1 then aget hm (toIndex w x y) else 0)"
  by (auto simp: bilinearInterp_def Let_def)

text \<open>
  Claim C6, as stated: sampling at any integer coordinates returns the stored cell.
  On the last column and the last row (and outside the grid) \<open>_bilinearInterp\<close> returns
  0 by its guard: in a 2 x 2 grid of ones, the sample at \<open>(1, 1)\<close> is 0, the cell is 1.
\<close>

theorem bilinearInterp_last_cell:
  "bilinearInterp 2 2 [1, 1, 1, 1] 1 1 = 0 \<and> aget [1, 1, 1, 1] (toIndex 2 1 1) = 1"
  by (simp add: bilinearInterp_def aget_def toIndex_def)

text \<open>
  Claim C6, amended: at integer coordinates \<open>(x, y)\<close> with \<open>0 \<le> x < width - 1\<close> and
  \<open>0 \<le> y < height - 1\<close> the sample is exactly the stored cell \<open>(x, y)\<close> (a grid of
  \<open>width * height\<close> cells has one there); at every other integer point it is 0.
\<close>

theorem bilinearInterp_integer:
  "bilinearInterp w h hm (of_int x) (of_int y) =
    (if 0 \<le> x \<and> 0 \<le> y \<and> x < w - 1 \<and> y < h - 1 then aget hm (toIndex w x y) else 0)"
  by (rule bilinearInterp_of_int)

theorem bilinearInterp_integer_witness:
  "bilinearInterp 3 3 [1, 2, 3, 4, 5, 6, 7, 8, 9] 1 1 = 5
   \<and> bilinearInterp 3 3 [1, 2, 3, 4, 5, 6, 7, 8, 9] 2 1 = 0"
  using bilinearInterp_integer [of 3 3 "[1, 2, 3, 4, 5, 6, 7, 8, 9]" 1 1]
        bilinearInterp_integer [of 3 3 "[1, 2, 3, 4, 5, 6, 7, 8, 9]" 2 1]
  by (simp add: aget_def toIndex_def)

section \<open>Pause and resume\<close>

text \<open>
  Claim C8: \<open>pause()\<close> and \<open>resume()\<close> write the activity flag and nothing else: the
  height field, the droplet pool (every droplet with all its fields), the parameters
  and every auxiliary map are those of the state before the call.
\<close>

theorem pause_resume_frame:
  "dropletsActive (pause e) = Some False \<and> dropletsActive (resume e) = Some True
   \<and> heightMap (pause e) = heightMap e \<and> heightMap (resume e) = heightMap e
   \<and> droplets (pause e) = droplets e \<and> droplets (resume e) = droplets e
   \<and> flowMap (pause e) = flowMap e \<and> flowMap (resume e) = flowMap e
   \<and> microDetailMap (pause e) = microDetailMap e \<and> microDetailMap (resume e) = microDetailMap e
   \<and> microDetailNoise (pause e) = microDetailNoise e
   \<and> microDetailNoise (resume e) = microDetailNoise e
   \<and> talusMap (pause e) = talusMap e \<and> talusMap (resume e) = talusMap e
   \<and> slopeMap (pause e) = slopeMap e \<and> slopeMap (resume e) = slopeMap e
   \<and> params (pause e) = params e \<and> params (resume e) = params e
   \<and> width (pause e) = width e \<and> width (resume e) = width e
   \<and> height (pause e) = height e \<and> height (resume e) = height e"
  by (simp add: pause_def resume_def)

section \<open>Construction and the worker protocol\<close>

lemma allocMaps_fields:
  assumes "0 \<le> width e * height e"
  shows "\<exists>e'. allocMaps e = Inr e' \<and> width e' = width e \<and> height e' = height e
      \<and> heightMap e' = heightMap e \<and> params e' = params e \<and> droplets e' = droplets e
      \<and> dropletsActive e' = dropletsActive e
      \<and> flowMap e' = (if useFlowAccumulation (params e)
                       then Some (replicate (nat (width e * height e)) 0) else flowMap e)
      \<and> microDetailMap e' = (if useMultiScale (params e)
                              then Some (replicate (nat (width e * height e)) 0)
                              else microDetailMap e)
      \<and> (useMicroDetails (params e) \<longrightarrow> microDetailNoise e' \<noteq> None)
      \<and> (\<not> useMicroDetails (params e) \<longrightarrow> microDetailNoise e' = microDetailNoise e)
      \<and> (useTalusFormation (params e) \<longrightarrow> talusMap e' \<noteq> None \<and> slopeMap e' \<noteq> None)
      \<and> (\<not> useTalusFormation (params e) \<longrightarrow>
            talusMap e' = talusMap e \<and> slopeMap e' = slopeMap e)"
  using assms by (simp add: allocMaps_def newFloat32Array_def bindE_def Let_def)

lemma constructor_fields:
  assumes "0 \<le> w * h"
  shows "\<exists>e. constructor w h hm ov = Inr e \<and> width e = w \<and> height e = h
      \<and> heightMap e = hm \<and> params e = ov (scaledParams (sqrt (of_int (w * h) / (500 * 500))))
      \<and> droplets e = None \<and> dropletsActive e = None
      \<and> flowMap e = (if useFlowAccumulation (params e)
                      then Some (replicate (nat (w * h)) 0) else None)
      \<and> microDetailMap e = (if useMultiScale (params e)
                             then Some (replicate (nat (w * h)) 0) else None)
      \<and> (useMicroDetails (params e) \<longrightarrow> microDetailNoise e \<noteq> None)
      \<and> (\<not> useMicroDetails (params e) \<longrightarrow> microDetailNoise e = None)
      \<and> (useTalusFormation (params e) \<longrightarrow> talusMap e \<noteq> None \<and> slopeMap e \<noteq> None)
      \<and> (\<not> useTalusFormation (params e) \<longrightarrow> talusMap e = None \<and> slopeMap e = None)"
proof -
  define e0 where "e0 = \<lparr>width = w, height = h, heightMap = hm,
        params = ov (scaledParams (sqrt (of_int (w * h) / (500 * 500)))),
        flowMap = None, microDetailMap = None, microDetailNoise = None,
        talusMap = None, slopeMap = None, droplets = None, dropletsActive = None\<rparr>"
  have c: "constructor w h hm ov = allocMaps e0"
    by (simp add: constructor_def e0_def Let_def)
  have "0 \<le> width e0 * height e0" using assms by (simp add: e0_def)
  from allocMaps_fields [OF this] obtain e' where e': "allocMaps e0 = Inr e'"
    "width e' = width e0" "height e' = height e0" "heightMap e' = heightMap e0"
    "params e' = params e0" "droplets e' = droplets e0" "dropletsActive e' = dropletsActive e0"
    "flowMap e' = (if useFlowAccumulation (params e0)
                   then Some (replicate (nat (width e0 * height e0)) 0) else flowMap e0)"
    "microDetailMap e' = (if useMultiScale (params e0)
                          then Some (replicate (nat (width e0 * height e0)) 0)
                          else microDetailMap e0)"
    "useMicroDetails (params e0) \<longrightarrow> microDetailNoise e' \<noteq> None"
    "\<not> useMicroDetails (params e0) \<longrightarrow> microDetailNoise e' = microDetailNoise e0"
    "useTalusFormation (params e0) \<longrightarrow> talusMap e' \<noteq> None \<and> slopeMap e' \<noteq> None"
    "\<not> useTalusFormation (params e0) \<longrightarrow> talusMap e' = talusMap e0 \<and> slopeMap e' = slopeMap e0"
    by blast
  show ?thesis
    apply (rule exI [of _ e'])
    using e' unfolding c by (simp add: e0_def)
qed

text \<open>
  On a worker that holds no simulator a \<open>step\<close> request runs no step: one message of
  type \<open>error\<close> with the literal \<open>Simulator not initialized\<close> is posted, the variable
  stays \<open>null\<close>, and an \<open>init\<close> that follows succeeds.
\<close>

lemma step_on_fresh_worker:
  "onmessage rnd None (Step batchSize) = (None, [ErrorLiteral ''Simulator not initialized''])
   \<and> suffix ''not initialized'' ''Simulator not initialized''
   \<and> (0 \<le> w * h \<and> 0 \<le> numDroplets \<and> numDroplets \<le> 4294967295 \<longrightarrow>
        (\<exists>e. onmessage rnd' (fst (onmessage rnd None (Step batchSize)))
                (Init w h hm ov numDroplets) = (Some e, [InitSuccess])))"
proof -
  have s: "onmessage rnd None (Step batchSize) = (None, [ErrorLiteral ''Simulator not initialized''])"
    by (simp add: onmessage_def)
  have i: "\<exists>e. onmessage rnd' None (Init w h hm ov numDroplets) = (Some e, [InitSuccess])"
    if "0 \<le> w * h" "0 \<le> numDroplets" "numDroplets \<le> 4294967295"
  proof -
    from constructor_fields [OF that(1)] obtain e where "constructor w h hm ov = Inr e" by blast
    with that(2,3) show ?thesis by (simp add: onmessage_def)
  qed
  show ?thesis using s i by (simp add: suffix_def)
qed

text \<open>
  Claim C9: a \<open>step\<close> request sent before any successful \<open>init\<close> runs no
  \<open>stepDroplets\<close> and is answered with the failure "not initialized". On a worker that
  holds no simulator that is what happens. But \<open>init\<close> stores the simulator before it
  creates the droplets: an \<open>init\<close> whose droplet count is no array length fails (it
  reports \<open>success: false\<close>) and leaves a simulator without a pool behind. The \<open>step\<close>
  that follows passes the \<open>!simulator\<close> test, calls \<open>stepDroplets\<close>, which throws on
  \<open>this.droplets.length\<close>, and is answered with the message of that \<open>TypeError\<close>.
\<close>

theorem step_after_failed_init:
  "onmessage (\<lambda>k. 1 / 2) None (Step 1) = (None, [ErrorLiteral ''Simulator not initialized''])
   \<and> snd (onmessage (\<lambda>k. 1 / 2) None (Init 4 4 (replicate 16 1) plainOverlay 5000000000))
       = [InitFailure RangeError]
   \<and> halfStarted \<noteq> None
   \<and> stepDroplets (the halfStarted) 1 (1 / 2) = Inl (TypeError, the halfStarted)
   \<and> onmessage (\<lambda>k. 1 / 2) halfStarted (Step 1) = (halfStarted, [ErrorCaught TypeError])"
proof -
  have "(0::int) \<le> 4 * 4" by simp
  from constructor_fields [OF this, of "replicate 16 1" plainOverlay] obtain e0 where
    c: "constructor 4 4 (replicate 16 1) plainOverlay = Inr e0" and d: "droplets e0 = None"
    by blast
  have i: "onmessage (\<lambda>k. 1 / 2) None (Init 4 4 (replicate 16 1) plainOverlay 5000000000)
      = (Some e0, [InitFailure RangeError])"
    using c by (simp add: onmessage_def)
  then have h: "halfStarted = Some e0" by (simp add: halfStarted_def)
  have t: "stepDroplets e0 1 (1 / 2) = Inl (TypeError, e0)"
    using d by (simp add: stepDroplets_def)
  have s1: "onmessage (\<lambda>k. 1 / 2) (Some e0) (Step 1) = (Some e0, [ErrorCaught TypeError])"
    using t by (simp add: onmessage_def)
  have s2: "onmessage (\<lambda>k. 1 / 2) None (Step 1)
      = (None, [ErrorLiteral ''Simulator not initialized''])"
    by (simp add: onmessage_def)
  show ?thesis unfolding h i s1 s2 by (simp add: t)
qed

section \<open>How many passes the inner loop makes\<close>

lemma subSteps_from:
  "subSteps m step ed = repeatSubStep (nat \<lceil>m\<rceil> - step) ed"
proof (induction m step ed rule: subSteps.induct)
  case (1 m step ed)
  show ?case
  proof (cases "real step < m")
    case True
    then have "int step < \<lceil>m\<rceil>" by linarith
    then have s: "nat \<lceil>m\<rceil> - step = Suc (nat \<lceil>m\<rceil> - Suc step)" by linarith
    show ?thesis
      using True 1 by (subst subSteps.simps) (simp add: s split: sum.splits)
  next
    case False
    then have "\<lceil>m\<rceil> \<le> int step" by linarith
    then have "nat \<lceil>m\<rceil> - step = 0" by linarith
    with False show ?thesis by (subst subSteps.simps) simp
  qed
qed

lemma resolutionScale_le_one: "w * h \<le> 250000 \<Longrightarrow> resolutionScale w h \<le> 1"
proof -
  assume a: "w * h \<le> 250000"
  have "real_of_int (w * h) \<le> 250000" using a by linarith
  then have "real_of_int (w * h) / (500 * 500) \<le> 1" by simp
  then have "sqrt (real_of_int (w * h) / (500 * 500)) \<le> sqrt 1" by (rule real_sqrt_le_mono)
  then show ?thesis by (simp add: resolutionScale_def)
qed

lemma resolutionScale_pos: "0 < w * h \<Longrightarrow> 0 < resolutionScale w h"
proof -
  assume a: "0 < w * h"
  have "0 < real_of_int (w * h)" using a by linarith
  then have "0 < real_of_int (w * h) / (500 * 500)" by simp
  then show ?thesis unfolding resolutionScale_def by (simp only: real_sqrt_gt_0_iff)
qed

lemma resolutionScale_gt_one: "250000 < w * h \<Longrightarrow> 1 < resolutionScale w h"
proof -
  assume a: "250000 < w * h"
  have "250000 < real_of_int (w * h)" using a by linarith
  then have "1 < real_of_int (w * h) / (500 * 500)" by simp
  then have "sqrt 1 < sqrt (real_of_int (w * h) / (500 * 500))" by (rule real_sqrt_less_mono)
  then show ?thesis by (simp add: resolutionScale_def)
qed

lemma resolutionScale_nonpos: "w * h \<le> 0 \<Longrightarrow> resolutionScale w h \<le> 0"
proof -
  assume a: "w * h \<le> 0"
  have "real_of_int (w * h) \<le> 0" using a by linarith
  then have "real_of_int (w * h) / (500 * 500) \<le> 0" by simp
  then show ?thesis by (simp add: resolutionScale_def)
qed

lemma passes:
  "nat \<lceil>dropletMultiplier w h\<rceil> = (if w * h \<le> 0 then 0 else if w * h \<le> 250000 then 1 else 2)"
proof -
  consider "w * h \<le> 0" | "0 < w * h" "w * h \<le> 250000" | "250000 < w * h" by linarith
  then show ?thesis
  proof cases
    case 1
    from resolutionScale_nonpos [OF 1] have "dropletMultiplier w h \<le> 0"
      by (simp add: dropletMultiplier_def)
    then have "\<lceil>dropletMultiplier w h\<rceil> \<le> 0" by linarith
    with 1 show ?thesis by simp
  next
    case 2
    from resolutionScale_pos [OF 2(1)] resolutionScale_le_one [OF 2(2)]
    have "0 < dropletMultiplier w h" "dropletMultiplier w h \<le> 1"
      by (simp_all add: dropletMultiplier_def)
    then have "\<lceil>dropletMultiplier w h\<rceil> = 1" by linarith
    with 2 show ?thesis by simp
  next
    case 3
    from resolutionScale_gt_one [OF 3]
    have "1 < dropletMultiplier w h" "dropletMultiplier w h \<le> 2"
      by (simp_all add: dropletMultiplier_def)
    then have "\<lceil>dropletMultiplier w h\<rceil> = 2" by linarith
    with 3 show ?thesis by simp
  qed
qed

lemma subSteps_passes:
  "subSteps (dropletMultiplier w h) 0 ed = repeatSubStep (nat \<lceil>min (resolutionScale w h) 2\<rceil>) ed
   \<and> nat \<lceil>min (resolutionScale w h) 2\<rceil> = (if w * h \<le> 0 then 0 else if w * h \<le> 250000 then 1 else 2)"
  using passes [of w h] subSteps_from [of "dropletMultiplier w h" 0 ed]
  by (simp add: dropletMultiplier_def)

lemma erosionScale_pos: "0 < w * h \<Longrightarrow> 0 < erosionScale w h"
proof -
  assume "0 < w * h"
  then have r: "0 < resolutionScale w h" by (rule resolutionScale_pos)
  then have "0 < (1.0 / resolutionScale w h) powr 0.5" by simp
  moreover have "0 < min (resolutionScale w h) 3.0" using r by simp
  ultimately show ?thesis unfolding erosionScale_def by (rule mult_pos_pos)
qed

section \<open>Running one droplet\<close>






lemma flat_sample: "bilinearInterp 4 4 (replicate 16 1) 2 2 = 1"
  using bilinearInterp_of_int [of 4 4 "replicate 16 1" 2 2]
  by (simp add: aget_def toIndex_def)

lemma flat_gradient: "calcGradient 4 4 hm 2 2 = (0, 0)"
  by (simp add: calcGradient_def)




lemma init_one:
  assumes "0 \<le> w * h"
  shows "\<exists>e0. constructor w h hm ov = Inr e0
     \<and> onmessage rnd None (Init w h hm ov 1)
        = (Some (e0\<lparr>droplets := Some [fst (createDroplet e0 rnd 0)]\<rparr>), [InitSuccess])"
proof -
  from constructor_fields [OF assms] obtain e0 where "constructor w h hm ov = Inr e0" by blast
  then show ?thesis by (simp add: onmessage_def Let_def split: prod.splits)
qed

lemma dropletLoop_single:
  assumes "d_alive d" "subSteps m 0 (e, d) = Inr (e1, d1)"
  shows "dropletLoop 1 m 0 0 (e, [d]) = Inr (e1, [d1])"
  using assms
  by (subst dropletLoop.simps, simp add: Let_def, subst dropletLoop.simps, simp add: Let_def)


lemma recomputeSlopeMap_ok: "slopeMap e \<noteq> None \<Longrightarrow> \<exists>e1. recomputeSlopeMap e = Inr e1"
  by (auto simp: recomputeSlopeMap_def)


lemma stepDroplets_returns:
  assumes "droplets e = Some ds"
    and "dropletLoop b (dropletMultiplier (width e) (height e)) 0 0 (e, ds) = Inr (e1, ds1)"
    and "(if useTalusFormation (params e1) \<and> r < 0.1
          then recomputeSlopeMap (e1\<lparr>droplets := Some ds1\<rparr>)
          else Inr (e1\<lparr>droplets := Some ds1\<rparr>)) = Inr e3"
  shows "stepDroplets e b r = Inr (e3, list_ex d_alive ds1, heightMap e3)"
  using assms by (cases "useTalusFormation (params e1) \<and> r < 0.1") (simp_all add: stepDroplets_def)

lemma initialised_one:
  assumes "0 \<le> w * h"
  shows "\<exists>e0. constructor w h hm ov = Inr e0
     \<and> initialised rnd w h hm ov 1 = e0\<lparr>droplets := Some [fst (createDroplet e0 rnd 0)]\<rparr>"
  using init_one [OF assms, of hm ov rnd] by (auto simp: initialised_def)

lemma initialised_plain:
  assumes "0 \<le> w * h"
  shows "width (initialised rnd w h hm plainOverlay 1) = w
    \<and> height (initialised rnd w h hm plainOverlay 1) = h
    \<and> heightMap (initialised rnd w h hm plainOverlay 1) = hm
    \<and> params (initialised rnd w h hm plainOverlay 1)
        = plainOverlay (scaledParams (sqrt (of_int (w * h) / (500 * 500))))
    \<and> flowMap (initialised rnd w h hm plainOverlay 1) = None
    \<and> microDetailMap (initialised rnd w h hm plainOverlay 1) = None
    \<and> microDetailNoise (initialised rnd w h hm plainOverlay 1) = None
    \<and> talusMap (initialised rnd w h hm plainOverlay 1) = None
    \<and> slopeMap (initialised rnd w h hm plainOverlay 1) = None
    \<and> droplets (initialised rnd w h hm plainOverlay 1)
        = Some [\<lparr>d_x = rnd 0 * of_int (w - 2) + 1, d_y = rnd 1 * of_int (h - 2) + 1,
                 d_dx = 0, d_dy = 0, d_speed = 1, d_water = 1, d_sediment = 0,
                 d_lifetime = 0, d_alive = True, d_sedimentDistribution = None\<rparr>]"
proof -
  from constructor_fields [OF assms, of hm plainOverlay] obtain e0 where
    c: "constructor w h hm plainOverlay = Inr e0" and
    f: "width e0 = w" "height e0 = h" "heightMap e0 = hm"
       "params e0 = plainOverlay (scaledParams (sqrt (of_int (w * h) / (500 * 500))))"
       "flowMap e0 = (if useFlowAccumulation (params e0) then Some (replicate (nat (w * h)) 0) else None)"
       "microDetailMap e0 = (if useMultiScale (params e0) then Some (replicate (nat (w * h)) 0) else None)"
       "\<not> useMicroDetails (params e0) \<longrightarrow> microDetailNoise e0 = None"
       "\<not> useTalusFormation (params e0) \<longrightarrow> talusMap e0 = None \<and> slopeMap e0 = None"
    by blast
  from initialised_one [OF assms, of hm plainOverlay rnd] c
  have i: "initialised rnd w h hm plainOverlay 1 = e0\<lparr>droplets := Some [fst (createDroplet e0 rnd 0)]\<rparr>"
    by simp
  have p: "useFlowAccumulation (params e0) = False" "useMultiScale (params e0) = False"
    "useMicroDetails (params e0) = False" "useTalusFormation (params e0) = False"
    "useSedimentSizes (params e0) = False" "initialSpeed (params e0) = 1"
    "initialVolume (params e0) = 1"
    by (simp_all add: f(4) plainOverlay_def)
  show ?thesis
    unfolding i using f p by (simp add: createDroplet_def)
qed

lemma plain_fields:
  "inertia (plainOverlay p) = 1 / 2" "friction (plainOverlay p) = 0"
  "sedimentCapacityFactor (plainOverlay p) = 0" "depositionRate (plainOverlay p) = 1"
  "evaporationRate (plainOverlay p) = 0" "minVolume (plainOverlay p) = 0"
  "maxDropletLifetime (plainOverlay p) = 5"
  "useMultiScale (plainOverlay p) = False" "useSedimentSizes (plainOverlay p) = False"
  "useFlowAccumulation (plainOverlay p) = False" "useTemperature (plainOverlay p) = False"
  "useMicroDetails (plainOverlay p) = False" "useTalusFormation (plainOverlay p) = False"
  by (simp_all add: plainOverlay_def)



lemma stepDroplets_plain_single:
  assumes "params e = plainOverlay p0" "droplets e = Some [d]" "d_alive d"
    and "subSteps (dropletMultiplier (width e) (height e)) 0 (e, d) = Inr (e, d1)"
  shows "stepDroplets e 1 r = Inr (e\<lparr>droplets := Some [d1]\<rparr>, d_alive d1, heightMap e)"
proof -
  have l: "dropletLoop 1 (dropletMultiplier (width e) (height e)) 0 0 (e, [d]) = Inr (e, [d1])"
    using assms(3,4) by (rule dropletLoop_single)
  have "(if useTalusFormation (params e) \<and> r < 0.1
          then recomputeSlopeMap (e\<lparr>droplets := Some [d1]\<rparr>)
          else Inr (e\<lparr>droplets := Some [d1]\<rparr>)) = Inr (e\<lparr>droplets := Some [d1]\<rparr>)"
    by (simp add: assms(1) plain_fields)
  from stepDroplets_returns [OF assms(2) l this] show ?thesis by simp
qed

lemma subStep_at_rest:
  assumes g: "calcGradient (width e) (height e) (heightMap e) (d_x d) (d_y d) = (0, 0)"
    and b: "\<not> outOfBounds e d"
    and d: "d_dx d = 0" "d_dy d = 0"
    and v: "\<not> useTemperature (params e)"
  shows "subStep (e, d) =
    (case flowAccumulate e (erosionScale (width e) (height e))
            (updateSpeed (params e) (erosionScale (width e) (height e)) 0 d)
            (baseCapacity (params e) (erosionScale (width e) (height e)) 0
               (updateSpeed (params e) (erosionScale (width e) (height e)) 0 d)) of
       Inl err \<Rightarrow> Inl (err, (e, updateSpeed (params e) (erosionScale (width e) (height e)) 0 d))
     | Inr (e1, cap) \<Rightarrow>
        (case erodeOrDeposit e1 (erosionScale (width e) (height e))
                (updateSpeed (params e) (erosionScale (width e) (height e)) 0 d)
                \<lfloor>d_x d\<rfloor> \<lfloor>d_y d\<rfloor> (d_x d - of_int \<lfloor>d_x d\<rfloor>) (d_y d - of_int \<lfloor>d_y d\<rfloor>) cap
                (bilinearInterp (width e) (height e) (heightMap e) (d_x d) (d_y d)) of
           Inl t \<Rightarrow> Inl t
         | Inr (e2, d3) \<Rightarrow> Inr (e2, evaporate (params e) (erosionScale (width e) (height e)) d3)))"
proof -
  have m: "moveDroplet e (erosionScale (width e) (height e)) d = Inr d"
    using g d v by (simp add: moveDroplet_def Let_def calculateViscosity_def)
  show ?thesis
    by (simp add: subStep_def Let_def m b split: sum.splits prod.splits)
qed



section \<open>A droplet at rest on level ground\<close>




section \<open>A droplet that leaves the interior\<close>

lemma slopeEngine_fields:
  "width slopeEngine = 1125" "height slopeEngine = 1125" "heightMap slopeEngine = slopeField"
  "params slopeEngine = plainOverlay (scaledParams (sqrt (of_int (1125 * 1125) / (500 * 500))))"
  "droplets slopeEngine = Some [\<lparr>d_x = 1122, d_y = 500,
                 d_dx = 0, d_dy = 0, d_speed = 1, d_water = 1, d_sediment = 0,
                 d_lifetime = 0, d_alive = True, d_sedimentDistribution = None\<rparr>]"
  using initialised_plain [of 1125 1125 "\<lambda>k. if k = 0 then 1121 / 1123 else 499 / 1123" slopeField]
  by (simp_all add: slopeEngine_def)

lemma slopeField_cell:
  "0 \<le> x \<Longrightarrow> x < 1125 \<Longrightarrow> 0 \<le> y \<Longrightarrow> y < 1125 \<Longrightarrow>
     aget slopeField (toIndex 1125 x y) = 1124 - of_int x"
proof -
  assume a: "0 \<le> x" "x < 1125" "0 \<le> y" "y < 1125"
  have n: "nat (y * 1125 + x) = nat y * 1125 + nat x" using a by (simp add: nat_add_distrib nat_mult_distrib)
  have l: "nat y * 1125 + nat x < 1265625" using a by linarith
  have m: "(nat y * 1125 + nat x) mod 1125 = nat x" using a by simp
  show ?thesis
    unfolding aget_def toIndex_def slopeField_def n
    using l a by (simp add: m)
qed

lemma slope_sample:
  "0 \<le> x \<Longrightarrow> x < 1124 \<Longrightarrow> 0 \<le> y \<Longrightarrow> y < 1124 \<Longrightarrow>
     bilinearInterp 1125 1125 slopeField (of_int x) (of_int y) = 1124 - of_int x"
  using bilinearInterp_of_int [of 1125 1125 slopeField x y]
  by (simp add: slopeField_cell)

lemma slope_gradient: "calcGradient 1125 1125 slopeField 1122 500 = (- 1, 0)"
proof -
  have "bilinearInterp 1125 1125 slopeField 1121 500 = 3"
    using slope_sample [of 1121 500] by simp
  moreover have "bilinearInterp 1125 1125 slopeField 1123 500 = 1"
    using slope_sample [of 1123 500] by simp
  moreover have "bilinearInterp 1125 1125 slopeField 1122 499 = 2"
    using slope_sample [of 1122 499] by simp
  moreover have "bilinearInterp 1125 1125 slopeField 1122 501 = 2"
    using slope_sample [of 1122 501] by simp
  ultimately show ?thesis by (simp add: calcGradient_def Let_def)
qed

lemma resolutionScale_slope: "resolutionScale 1125 1125 = 9 / 4"
  unfolding resolutionScale_def by (rule real_sqrt_unique) (simp_all add: power2_eq_square)

lemma erosionScale_slope: "erosionScale 1125 1125 = 3 / 2"
proof -
  have "(4 / 9 :: real) powr (1 / 2) = sqrt (4 / 9)" by (simp add: powr_half_sqrt)
  also have "\<dots> = 2 / 3" by (rule real_sqrt_unique) (simp_all add: power2_eq_square)
  finally show ?thesis by (simp add: erosionScale_def resolutionScale_slope)
qed

lemma sqrt_nine_sixteenths: "sqrt (9 / 16) = 3 / 4"
  by (rule real_sqrt_unique) (simp_all add: power2_eq_square)

lemma sqrt_quarter: "sqrt (1 / 4) = 1 / 2"
  by (rule real_sqrt_unique) (simp_all add: power2_eq_square)

lemmas sqrt_values = sqrt_nine_sixteenths sqrt_quarter

lemma slope_pass1:
  "subStep (slopeEngine, \<lparr>d_x = 1122, d_y = 500,
                 d_dx = 0, d_dy = 0, d_speed = 1, d_water = 1, d_sediment = 0,
                 d_lifetime = 0, d_alive = True, d_sedimentDistribution = None\<rparr>)
   = Inr (slopeEngine, \<lparr>d_x = 2247 / 2, d_y = 500,
                 d_dx = 1, d_dy = 0, d_speed = 1, d_water = 1, d_sediment = 0,
                 d_lifetime = 0, d_alive = False, d_sedimentDistribution = None\<rparr>)"
proof -
  note f = slopeEngine_fields
  let ?d = "\<lparr>d_x = 1122, d_y = 500,
                 d_dx = 0, d_dy = 0, d_speed = 1, d_water = 1, d_sediment = 0,
                 d_lifetime = 0, d_alive = True, d_sedimentDistribution = None\<rparr>"
  have m: "moveDroplet slopeEngine (3 / 2) ?d
      = Inr (?d\<lparr>d_dx := 1, d_dy := 0, d_x := 2247 / 2, d_y := 500\<rparr>)"
    by (simp add: moveDroplet_def Let_def f slope_gradient calculateViscosity_def plain_fields
        sqrt_values)
  show ?thesis
    by (simp add: subStep_def Let_def f erosionScale_slope m outOfBounds_def)
qed

lemma slope_pass2:
  "subStep (slopeEngine, \<lparr>d_x = 2247 / 2, d_y = 500,
                 d_dx = 1, d_dy = 0, d_speed = 1, d_water = 1, d_sediment = 0,
                 d_lifetime = 0, d_alive = False, d_sedimentDistribution = None\<rparr>)
   = Inr (slopeEngine, \<lparr>d_x = 1125, d_y = 500,
                 d_dx = 1, d_dy = 0, d_speed = 1, d_water = 1, d_sediment = 0,
                 d_lifetime = 0, d_alive = False, d_sedimentDistribution = None\<rparr>)"
proof -
  note f = slopeEngine_fields
  let ?d = "\<lparr>d_x = 2247 / 2, d_y = 500,
                 d_dx = 1, d_dy = 0, d_speed = 1, d_water = 1, d_sediment = 0,
                 d_lifetime = 0, d_alive = False, d_sedimentDistribution = None\<rparr>"
  have fl: "\<lfloor>2247 / 2 :: real\<rfloor> = 1123" by linarith
  have g: "calcGradient 1125 1125 slopeField (2247 / 2) 500 = (0, 0)"
    by (simp add: calcGradient_def fl)
  have m: "moveDroplet slopeEngine (3 / 2) ?d
      = Inr (?d\<lparr>d_dx := 1, d_dy := 0, d_x := 1125, d_y := 500\<rparr>)"
    by (simp add: moveDroplet_def Let_def f g calculateViscosity_def plain_fields
        sqrt_values)
  show ?thesis
    by (simp add: subStep_def Let_def f erosionScale_slope m outOfBounds_def)
qed

text \<open>
  Claim C4: a droplet whose new position leaves the interior margin is flagged dead,
  keeps its new position, and makes no further sub-step in that call. The code sets
  the flag and keeps the position, but its \<open>continue\<close> ends the current pass only: on
  the 1125 x 1125 slope (two passes per call) the droplet at \<open>(1122, 500)\<close> leaves in
  the first pass, dead at \<open>x = 1123.5\<close>, and the second pass moves the dead droplet on
  to \<open>x = 1125\<close>.
\<close>

theorem dead_droplet_moves_again:
  "subStep (slopeEngine, \<lparr>d_x = 1122, d_y = 500,
                 d_dx = 0, d_dy = 0, d_speed = 1, d_water = 1, d_sediment = 0,
                 d_lifetime = 0, d_alive = True, d_sedimentDistribution = None\<rparr>)
   = Inr (slopeEngine, \<lparr>d_x = 2247 / 2, d_y = 500,
                 d_dx = 1, d_dy = 0, d_speed = 1, d_water = 1, d_sediment = 0,
                 d_lifetime = 0, d_alive = False, d_sedimentDistribution = None\<rparr>)
   \<and> stepDroplets slopeEngine 1 0
   = Inr (slopeEngine\<lparr>droplets := Some [\<lparr>d_x = 1125, d_y = 500,
                 d_dx = 1, d_dy = 0, d_speed = 1, d_water = 1, d_sediment = 0,
                 d_lifetime = 0, d_alive = False, d_sedimentDistribution = None\<rparr>]\<rparr>,
          False, slopeField)"
proof -
  note f = slopeEngine_fields
  let ?d = "\<lparr>d_x = 1122, d_y = 500,
                 d_dx = 0, d_dy = 0, d_speed = 1, d_water = 1, d_sediment = 0,
                 d_lifetime = 0, d_alive = True, d_sedimentDistribution = None\<rparr>"
  have "subSteps (dropletMultiplier 1125 1125) 0 (slopeEngine, ?d) = repeatSubStep 2 (slopeEngine, ?d)"
    using subSteps_passes [of 1125 1125 "(slopeEngine, ?d)"] by simp
  also have "\<dots> = Inr (slopeEngine, \<lparr>d_x = 1125, d_y = 500,
                 d_dx = 1, d_dy = 0, d_speed = 1, d_water = 1, d_sediment = 0,
                 d_lifetime = 0, d_alive = False, d_sedimentDistribution = None\<rparr>)"
    by (simp add: numeral_2_eq_2 slope_pass1 slope_pass2)
  finally have "subSteps (dropletMultiplier (width slopeEngine) (height slopeEngine)) 0
      (slopeEngine, ?d) = Inr (slopeEngine, \<lparr>d_x = 1125, d_y = 500,
                 d_dx = 1, d_dy = 0, d_speed = 1, d_water = 1, d_sediment = 0,
                 d_lifetime = 0, d_alive = False, d_sedimentDistribution = None\<rparr>)"
    by (simp add: f)
  from stepDroplets_plain_single [OF f(4) f(5) _ this, of 0] slope_pass1
  show ?thesis by (simp add: f)
qed

section \<open>Where droplets are created\<close>

lemma edgeEngine_fields:
  "width edgeEngine = 4" "height edgeEngine = 4" "heightMap edgeEngine = replicate 16 1"
  "params edgeEngine = plainOverlay (scaledParams (sqrt (of_int (4 * 4) / (500 * 500))))"
  "droplets edgeEngine = Some [\<lparr>d_x = 5 / 2, d_y = 5 / 2,
                 d_dx = 0, d_dy = 0, d_speed = 1, d_water = 1, d_sediment = 0,
                 d_lifetime = 0, d_alive = True, d_sedimentDistribution = None\<rparr>]"
  using initialised_plain [of 4 4 "\<lambda>k. 3 / 4" "replicate 16 1"]
  by (simp_all add: edgeEngine_def)

text \<open>
  Claim C5: an alive droplet always has \<open>1 \<le> x \<le> width - 2\<close>, also right after its
  creation. \<open>_createDroplet\<close> draws \<open>x = random * (width - 2) + 1\<close>, anywhere in
  \<open>[1, width - 1)\<close>: with the draw 0.75 on a 4 x 4 grid the fresh droplet is alive at
  \<open>x = 2.5 > 2 = width - 2\<close>. The bounds test of \<open>stepDroplets\<close> takes that position for
  outside: the first call kills the droplet where it stands.
\<close>

theorem fresh_droplet_outside_margin:
  "droplets edgeEngine = Some [\<lparr>d_x = 5 / 2, d_y = 5 / 2,
                 d_dx = 0, d_dy = 0, d_speed = 1, d_water = 1, d_sediment = 0,
                 d_lifetime = 0, d_alive = True, d_sedimentDistribution = None\<rparr>]
   \<and> of_int (width edgeEngine - 2) < (5 / 2 :: real)
   \<and> stepDroplets edgeEngine 1 0
     = Inr (edgeEngine\<lparr>droplets := Some [\<lparr>d_x = 5 / 2, d_y = 5 / 2,
                 d_dx = 0, d_dy = 0, d_speed = 1, d_water = 1, d_sediment = 0,
                 d_lifetime = 0, d_alive = False, d_sedimentDistribution = None\<rparr>]\<rparr>,
            False, replicate 16 1)"
proof -
  note f = edgeEngine_fields
  let ?d = "\<lparr>d_x = 5 / 2, d_y = 5 / 2,
                 d_dx = 0, d_dy = 0, d_speed = 1, d_water = 1, d_sediment = 0,
                 d_lifetime = 0, d_alive = True, d_sedimentDistribution = None\<rparr>"
  have fl: "\<lfloor>5 / 2 :: real\<rfloor> = 2" by linarith
  have g: "calcGradient 4 4 (replicate 16 1) (5 / 2) (5 / 2) = (0, 0)"
    by (simp add: calcGradient_def fl)
  have m: "moveDroplet edgeEngine es ?d = Inr ?d" for es
    by (simp add: moveDroplet_def Let_def f g calculateViscosity_def plain_fields)
  have s: "subStep (edgeEngine, ?d) = Inr (edgeEngine, ?d\<lparr>d_alive := False\<rparr>)"
    by (simp add: subStep_def Let_def m outOfBounds_def f)
  have "subSteps (dropletMultiplier 4 4) 0 (edgeEngine, ?d) = repeatSubStep 1 (edgeEngine, ?d)"
    using subSteps_passes [of 4 4 "(edgeEngine, ?d)"] by simp
  with s have "subSteps (dropletMultiplier (width edgeEngine) (height edgeEngine)) 0
      (edgeEngine, ?d) = Inr (edgeEngine, ?d\<lparr>d_alive := False\<rparr>)" by (simp add: f)
  from stepDroplets_plain_single [OF f(4) f(5) _ this, of 0] show ?thesis by (simp add: f)
qed

section \<open>The micro-detail map\<close>

lemma micro_fields:
  "inertia (microOverlay p) = 1 / 2" "friction (microOverlay p) = 0"
  "sedimentCapacityFactor (microOverlay p) = 1" "depositionRate (microOverlay p) = 1"
  "evaporationRate (microOverlay p) = 0" "minVolume (microOverlay p) = 0"
  "maxDropletLifetime (microOverlay p) = 5" "initialSpeed (microOverlay p) = 1"
  "initialVolume (microOverlay p) = 1"
  "useMultiScale (microOverlay p) = False" "useSedimentSizes (microOverlay p) = False"
  "useFlowAccumulation (microOverlay p) = False" "useTemperature (microOverlay p) = False"
  "useMicroDetails (microOverlay p) = True" "useTalusFormation (microOverlay p) = False"
  by (simp_all add: microOverlay_def plainOverlay_def)

lemma microEngine_fields:
  "width microEngine = 4" "height microEngine = 4" "heightMap microEngine = replicate 16 1"
  "params microEngine = microOverlay (scaledParams (sqrt (of_int (4 * 4) / (500 * 500))))"
  "microDetailMap microEngine = None" "microDetailNoise microEngine \<noteq> None"
  "droplets microEngine = Some [\<lparr>d_x = 2, d_y = 2,
                 d_dx = 0, d_dy = 0, d_speed = 1, d_water = 1, d_sediment = 0,
                 d_lifetime = 0, d_alive = True, d_sedimentDistribution = None\<rparr>]"
proof -
  have "(0::int) \<le> 4 * 4" by simp
  from constructor_fields [OF this, of "replicate 16 1" microOverlay] obtain e0 where
    c: "constructor 4 4 (replicate 16 1) microOverlay = Inr e0" and
    f: "width e0 = 4" "height e0 = 4" "heightMap e0 = replicate 16 1"
       "params e0 = microOverlay (scaledParams (sqrt (of_int (4 * 4) / (500 * 500))))"
       "microDetailMap e0 = (if useMultiScale (params e0) then Some (replicate (nat (4 * 4)) 0) else None)"
       "useMicroDetails (params e0) \<longrightarrow> microDetailNoise e0 \<noteq> None"
    by blast
  have "(0::int) \<le> 4 * 4" by simp
  from initialised_one [OF this, of "replicate 16 1" microOverlay "\<lambda>k. 1 / 2"] c
  have i: "microEngine = e0\<lparr>droplets := Some [fst (createDroplet e0 (\<lambda>k. 1 / 2) 0)]\<rparr>"
    by (simp add: microEngine_def)
  show "width microEngine = 4" "height microEngine = 4" "heightMap microEngine = replicate 16 1"
    "params microEngine = microOverlay (scaledParams (sqrt (of_int (4 * 4) / (500 * 500))))"
    "microDetailMap microEngine = None" "microDetailNoise microEngine \<noteq> None"
    "droplets microEngine = Some [\<lparr>d_x = 2, d_y = 2,
                 d_dx = 0, d_dy = 0, d_speed = 1, d_water = 1, d_sediment = 0,
                 d_lifetime = 0, d_alive = True, d_sedimentDistribution = None\<rparr>]"
    unfolding i using f by (simp_all add: createDroplet_def micro_fields)
qed

lemma micro_subStep_throws:
  "\<exists>e1 d1. subStep (microEngine, \<lparr>d_x = 2, d_y = 2,
                 d_dx = 0, d_dy = 0, d_speed = 1, d_water = 1, d_sediment = 0,
                 d_lifetime = 0, d_alive = True, d_sedimentDistribution = None\<rparr>)
     = Inl (TypeError, (e1, d1))"
proof -
  note f = microEngine_fields
  let ?d = "\<lparr>d_x = 2, d_y = 2,
                 d_dx = 0, d_dy = 0, d_speed = 1, d_water = 1, d_sediment = 0,
                 d_lifetime = 0, d_alive = True, d_sedimentDistribution = None\<rparr>"
  let ?es = "erosionScale (width microEngine) (height microEngine)"
  have es: "0 < ?es" by (rule erosionScale_pos) (simp add: f)
  then have pw: "0 < ?es powr 1.5" by simp
  have u: "updateSpeed (params microEngine) ?es 0 ?d = ?d"
    by (simp add: updateSpeed_def f(4) micro_fields)
  define cap where "cap = baseCapacity (params microEngine) ?es 0 ?d"
  have c: "0 < cap"
    using pw by (simp add: cap_def baseCapacity_def f(4) micro_fields)
  have fa: "flowAccumulate microEngine ?es ?d cap = Inr (microEngine, cap)"
    by (simp add: flowAccumulate_def f(4) micro_fields)
  obtain noise where n: "microDetailNoise microEngine = Some noise" using f(6) by blast
  have er: "0 < min (cap * ?es powr 1.5) 1" using c pw by simp
  have "\<exists>e1. erodeOrDeposit microEngine ?es ?d 2 2 0 0 cap 1 = Inl (TypeError, (e1, ?d))"
    using c er
    by (simp add: erodeOrDeposit_def Let_def f(4,5) micro_fields updateTalusFormation_def
        addMicroDetail_def n inCell_def f(1,2))
  then obtain e1 where e: "erodeOrDeposit microEngine ?es ?d 2 2 0 0 cap 1 = Inl (TypeError, (e1, ?d))"
    by blast
  have s: "bilinearInterp (width microEngine) (height microEngine) (heightMap microEngine) 2 2 = 1"
    by (simp add: f flat_sample)
  have g: "calcGradient (width microEngine) (height microEngine) (heightMap microEngine)
      (d_x ?d) (d_y ?d) = (0, 0)" by (simp add: f flat_gradient)
  have b: "\<not> outOfBounds microEngine ?d" by (simp add: outOfBounds_def f)
  have v: "\<not> useTemperature (params microEngine)" by (simp add: f(4) micro_fields)
  have "subStep (microEngine, ?d) = Inl (TypeError, (e1, ?d))"
    using subStep_at_rest [OF g b _ _ v] by (simp add: u cap_def [symmetric] fa e s)
  then show ?thesis by blast
qed

text \<open>
  Claim C10: every map that \<open>stepDroplets\<close> uses under a flag is allocated by the
  constructor under that flag. \<open>microDetailMap\<close> is written under \<open>useMicroDetails\<close> but
  allocated under \<open>useMultiScale\<close>: with \<open>{useMultiScale: false, useMicroDetails: true}\<close>
  the constructed engine has no such map, and the first eroding droplet makes
  \<open>stepDroplets\<close> throw a \<open>TypeError\<close>.
\<close>

theorem micro_detail_map_missing:
  "useMicroDetails (params microEngine) \<and> microDetailMap microEngine = None
   \<and> isl (stepDroplets microEngine 1 0)
   \<and> fst (projl (stepDroplets microEngine 1 0)) = TypeError"
proof -
  note f = microEngine_fields
  let ?d = "\<lparr>d_x = 2, d_y = 2,
                 d_dx = 0, d_dy = 0, d_speed = 1, d_water = 1, d_sediment = 0,
                 d_lifetime = 0, d_alive = True, d_sedimentDistribution = None\<rparr>"
  from micro_subStep_throws obtain e1 d1 where
    s: "subStep (microEngine, ?d) = Inl (TypeError, (e1, d1))" by blast
  have "subSteps (dropletMultiplier 4 4) 0 (microEngine, ?d) = repeatSubStep 1 (microEngine, ?d)"
    using subSteps_passes [of 4 4 "(microEngine, ?d)"] by simp
  with s have "subSteps (dropletMultiplier 4 4) 0 (microEngine, ?d) = Inl (TypeError, (e1, d1))"
    by simp
  then have "dropletLoop 1 (dropletMultiplier 4 4) 0 0 (microEngine, [?d])
      = Inl (TypeError, (e1, [d1]))"
    by (subst dropletLoop.simps) (simp add: Let_def)
  then have "stepDroplets microEngine 1 0 = Inl (TypeError, e1\<lparr>droplets := Some [d1]\<rparr>)"
    by (simp add: stepDroplets_def f)
  then show ?thesis by (simp add: f micro_fields)
qed

section \<open>Non-negative heights\<close>






























































section \<open>The number of sub-steps\<close>
















end
